theory Spec2Isabelle
  imports Main "HOL-Library.Word" "HOL-Library.Multiset"
begin

section \<open>Strings\<close>

text \<open>
  The plugin is JavaScript: a string is a sequence of UTF-16 code units, and the regular
  expressions of \<^verbatim>\<open>parseOperation\<close> carry no \<^verbatim>\<open>u\<close> flag, so they work on code units too.
\<close>

type_synonym code_unit = "16 word"
type_synonym jsstring = "code_unit list"

definition js :: "string \<Rightarrow> jsstring" where
  "js s = map of_char s"

definition isDigit :: "code_unit \<Rightarrow> bool" where
  \<comment> \<open>\<^verbatim>\<open>\d\<close>\<close>
  "isDigit c = (0x30 \<le> c \<and> c \<le> 0x39)"

definition isWordChar :: "code_unit \<Rightarrow> bool" where
  \<comment> \<open>\<^verbatim>\<open>\w\<close>, which decides where \<^verbatim>\<open>\b\<close> holds: \<^verbatim>\<open>[A-Za-z0-9_]\<close>\<close>
  "isWordChar c =
     ((0x41 \<le> c \<and> c \<le> 0x5A) \<or> (0x61 \<le> c \<and> c \<le> 0x7A) \<or> isDigit c \<or> c = 0x5F)"

definition isLineTerminator :: "code_unit \<Rightarrow> bool" where
  \<comment> \<open>what \<^verbatim>\<open>.\<close> refuses: LF, CR, U+2028, U+2029\<close>
  "isLineTerminator c = (c = 0x0A \<or> c = 0x0D \<or> c = 0x2028 \<or> c = 0x2029)"

definition isWhiteSpace :: "code_unit \<Rightarrow> bool" where
  \<comment> \<open>ECMAScript WhiteSpace: TAB, VT, FF, SP, NBSP, ZWNBSP and the category Zs\<close>
  "isWhiteSpace c =
     (c = 0x09 \<or> c = 0x0B \<or> c = 0x0C \<or> c = 0x20 \<or> c = 0xA0 \<or> c = 0x1680 \<or>
      (0x2000 \<le> c \<and> c \<le> 0x200A) \<or> c = 0x202F \<or> c = 0x205F \<or> c = 0x3000 \<or>
      c = 0xFEFF)"

definition isTrimmed :: "code_unit \<Rightarrow> bool" where
  "isTrimmed c = (isWhiteSpace c \<or> isLineTerminator c)"

definition trim :: "jsstring \<Rightarrow> jsstring" where
  \<comment> \<open>\<^verbatim>\<open>String.prototype.trim\<close>\<close>
  "trim s = rev (dropWhile isTrimmed (rev (dropWhile isTrimmed s)))"

definition asciiLower :: "jsstring \<Rightarrow> jsstring" where
  \<comment> \<open>\<^verbatim>\<open>String.prototype.toLowerCase\<close> on strings whose letters are ASCII letters or have
      no case (CJK). The definitions below take the lowering function as a parameter;
      this one instantiates it in the concrete evaluations.\<close>
  "asciiLower s = map (\<lambda>c. if 0x41 \<le> c \<and> c \<le> 0x5A then c + 0x20 else c) s"

section \<open>Numbers\<close>

text \<open>
  A JavaScript number is an IEEE 754 double. The numbers of the plugin come from
  \<^verbatim>\<open>parseInt\<close> on digit strings and from sums and differences of such, so the finite ones
  are integers: \<open>Fin n\<close> is the double whose value is the integer \<open>n\<close>, for an \<open>n\<close> that a double
  can hold (\<open>isDouble\<close>). Fractions, which only \<^verbatim>\<open>stock.set\<close> could bring in, are left
  out, and \<open>-0\<close> is not told from \<open>0\<close>.
\<close>

datatype jsnum = Fin int | PosInf | NegInf | NaN

function bitLength :: "int \<Rightarrow> nat" where
  "bitLength n = (if n \<le> 0 then 0 else Suc (bitLength (n div 2)))"
  by pat_completeness auto
termination
  by (relation "measure nat") auto

declare bitLength.simps [simp del]

definition roundMagnitude :: "int \<Rightarrow> int" where
  \<comment> \<open>a magnitude rounded to nearest, ties to even, with the 53 bits of a double's
      significand\<close>
  "roundMagnitude n =
     (if n < 2 ^ 53 then n
      else let u = 2 ^ (bitLength n - 53); q = n div u; r = n mod u
           in (if u < 2 * r \<or> (2 * r = u \<and> odd q) then q + 1 else q) * u)"

definition toDouble :: "int \<Rightarrow> jsnum" where
  \<comment> \<open>the Number value for a mathematical integer; what rounds to \<open>2^1024\<close> or beyond is
      infinite\<close>
  "toDouble n =
     (let m = roundMagnitude \<bar>n\<bar>
      in if 2 ^ 1024 \<le> m then (if n < 0 then NegInf else PosInf)
         else Fin (if n < 0 then - m else m))"

definition isDouble :: "jsnum \<Rightarrow> bool" where
  "isDouble x = (case x of Fin n \<Rightarrow> toDouble n = Fin n | _ \<Rightarrow> True)"

fun jsNeg :: "jsnum \<Rightarrow> jsnum" where
  "jsNeg (Fin a) = Fin (- a)"
| "jsNeg PosInf = NegInf"
| "jsNeg NegInf = PosInf"
| "jsNeg NaN = NaN"

fun jsAbs :: "jsnum \<Rightarrow> jsnum" where
  \<comment> \<open>\<^verbatim>\<open>Math.abs\<close>\<close>
  "jsAbs (Fin a) = Fin \<bar>a\<bar>"
| "jsAbs PosInf = PosInf"
| "jsAbs NegInf = PosInf"
| "jsAbs NaN = NaN"

fun jsAdd :: "jsnum \<Rightarrow> jsnum \<Rightarrow> jsnum" where
  \<comment> \<open>\<^verbatim>\<open>+\<close> on numbers: the exact sum, rounded\<close>
  "jsAdd (Fin a) (Fin b) = toDouble (a + b)"
| "jsAdd (Fin a) PosInf = PosInf"
| "jsAdd (Fin a) NegInf = NegInf"
| "jsAdd PosInf (Fin b) = PosInf"
| "jsAdd PosInf PosInf = PosInf"
| "jsAdd NegInf (Fin b) = NegInf"
| "jsAdd NegInf NegInf = NegInf"
| "jsAdd PosInf NegInf = NaN"
| "jsAdd NegInf PosInf = NaN"
| "jsAdd NaN y = NaN"
| "jsAdd x NaN = NaN"

definition jsSub :: "jsnum \<Rightarrow> jsnum \<Rightarrow> jsnum" where
  "jsSub x y = jsAdd x (jsNeg y)"

fun jsLt :: "jsnum \<Rightarrow> jsnum \<Rightarrow> bool" where
  \<comment> \<open>\<^verbatim>\<open>x < y\<close>, false whenever one side is \<^verbatim>\<open>NaN\<close>; \<^verbatim>\<open>x > y\<close> is \<open>jsLt y x\<close>\<close>
  "jsLt (Fin a) (Fin b) = (a < b)"
| "jsLt (Fin a) PosInf = True"
| "jsLt NegInf (Fin b) = True"
| "jsLt NegInf PosInf = True"
| "jsLt x y = False"

text \<open>
  \<^verbatim>\<open>Array.prototype.sort(comparefn)\<close>: stable, and a comparison that yields \<^verbatim>\<open>NaN\<close> counts
  as 0. An element moves behind another only when the comparison of the two is above 0.
\<close>

fun insertBy :: "('a \<Rightarrow> 'a \<Rightarrow> jsnum) \<Rightarrow> 'a \<Rightarrow> 'a list \<Rightarrow> 'a list" where
  "insertBy comparefn x [] = [x]"
| "insertBy comparefn x (y # ys) =
     (if jsLt (Fin 0) (comparefn x y) then y # insertBy comparefn x ys else x # y # ys)"

definition jsSort :: "('a \<Rightarrow> 'a \<Rightarrow> jsnum) \<Rightarrow> 'a list \<Rightarrow> 'a list" where
  "jsSort comparefn xs = foldr (insertBy comparefn) xs []"

section \<open>Configuration and the alias index\<close>

record item_config =
  name :: jsstring
  aliases :: "jsstring list"

record config =
  whitelistGroups :: "jsstring list"
  getCodeTag :: jsstring
  items :: "item_config list"

text \<open>
  \<^verbatim>\<open>config.items.forEach(item => item.aliases.forEach(alias =>
       aliasMap.set(alias.toLowerCase(), item.name)))\<close>: a later alias overwrites an
  earlier one with the same lowered key.
\<close>

definition addAliases :: "(jsstring \<Rightarrow> jsstring) \<Rightarrow> (jsstring \<rightharpoonup> jsstring) \<Rightarrow> item_config \<Rightarrow> (jsstring \<rightharpoonup> jsstring)" where
  \<comment> \<open>the inner \<^verbatim>\<open>forEach\<close>, over the aliases of one item\<close>
  "addAliases toLowerCase m it =
     foldl (\<lambda>m alias. m(toLowerCase alias \<mapsto> name it)) m (aliases it)"

definition aliasMap :: "(jsstring \<Rightarrow> jsstring) \<Rightarrow> config \<Rightarrow> (jsstring \<rightharpoonup> jsstring)" where
  "aliasMap toLowerCase cfg = foldl (addAliases toLowerCase) Map.empty (items cfg)"

definition getItemName :: "(jsstring \<Rightarrow> jsstring) \<Rightarrow> config \<Rightarrow> jsstring \<Rightarrow> jsstring option" where
  \<comment> \<open>\<^verbatim>\<open>aliasMap.get(alias.toLowerCase()) || null\<close>: the empty name is falsy, so it is
      \<^verbatim>\<open>null\<close> as well\<close>
  "getItemName toLowerCase cfg alias =
     (case aliasMap toLowerCase cfg (toLowerCase alias) of
        None \<Rightarrow> None
      | Some n \<Rightarrow> if n = [] then None else Some n)"

section \<open>The operation parser\<close>

datatype operator = OpPlus | OpMinus | OpSet

definition operatorChar :: "operator \<Rightarrow> code_unit" where
  "operatorChar o' = (case o' of OpPlus \<Rightarrow> 0x2B | OpMinus \<Rightarrow> 0x2D | OpSet \<Rightarrow> 0x3D)"

definition operatorOf :: "code_unit \<Rightarrow> operator option" where
  \<comment> \<open>\<^verbatim>\<open>[+\-=]\<close>\<close>
  "operatorOf c =
     (if c = 0x2B then Some OpPlus else if c = 0x2D then Some OpMinus
      else if c = 0x3D then Some OpSet else None)"

text \<open>
  \<^verbatim>\<open>/\b-r\b/\<close> at the head of a string, \<open>prevWord\<close> telling whether the code unit before
  it is a word character. \<^verbatim>\<open>-\<close> is not one, so the first \<^verbatim>\<open>\b\<close> needs a word character
  before it; \<^verbatim>\<open>r\<close> is one, so the second needs the end or a non-word character.
\<close>

fun noRankAt :: "bool \<Rightarrow> jsstring \<Rightarrow> bool" where
  "noRankAt prevWord (c1 # c2 # rest) =
     (c1 = 0x2D \<and> c2 = 0x72 \<and> prevWord \<and>
      (case rest of [] \<Rightarrow> True | c3 # _ \<Rightarrow> \<not> isWordChar c3))"
| "noRankAt prevWord _ = False"

fun testNoRank :: "bool \<Rightarrow> jsstring \<Rightarrow> bool" where
  \<comment> \<open>\<^verbatim>\<open>/\b-r\b/.test(text)\<close>\<close>
  "testNoRank prevWord [] = False"
| "testNoRank prevWord (c # cs) =
     (noRankAt prevWord (c # cs) \<or> testNoRank (isWordChar c) cs)"

fun replaceNoRank :: "bool \<Rightarrow> jsstring \<Rightarrow> jsstring" where
  \<comment> \<open>\<^verbatim>\<open>text.replace(/\b-r\b/g, '')\<close>: matches left to right, the search going on after
      each match, the boundaries read on the original text\<close>
  "replaceNoRank prevWord [] = []"
| "replaceNoRank prevWord (c # cs) =
     (if noRankAt prevWord (c # cs) then replaceNoRank True (tl cs)
      else c # replaceNoRank (isWordChar c) cs)"

text \<open>
  \<^verbatim>\<open>cleanText.match(/^(.+?)([+\-=])(\d+)$/)\<close>. The lazy group takes one code unit, then
  the rest of the pattern is tried; on failure the group takes one more, which must not be
  a line terminator. \<open>alias\<close> is what the group holds so far.
\<close>

fun matchOperation :: "jsstring \<Rightarrow> jsstring \<Rightarrow> (jsstring \<times> operator \<times> jsstring) option" where
  "matchOperation alias [] = None"
| "matchOperation alias (c # cs) =
     (case (if alias \<noteq> [] \<and> cs \<noteq> [] \<and> list_all isDigit cs then operatorOf c else None) of
        Some o' \<Rightarrow> Some (alias, o', cs)
      | None \<Rightarrow> if isLineTerminator c then None else matchOperation (alias @ [c]) cs)"

definition digitValue :: "jsstring \<Rightarrow> int" where
  "digitValue ds = foldl (\<lambda>acc d. 10 * acc + uint (d - 0x30)) 0 ds"

definition parseInt10 :: "jsstring \<Rightarrow> jsnum option" where
  \<comment> \<open>\<^verbatim>\<open>parseInt(valueStr, 10)\<close> on a string with no leading blank or sign: the Number value
      for the integer its leading digits spell, \<open>None\<close> for \<^verbatim>\<open>NaN\<close> when there is none. (Past
      20 significant digits ECMAScript lets an engine round less exactly.)\<close>
  "parseInt10 s =
     (case takeWhile isDigit s of
        [] \<Rightarrow> None
      | d # ds \<Rightarrow> Some (toDouble (digitValue (d # ds))))"

record parsed_operation =
  itemName :: jsstring
  operation :: operator
  opValue :: jsnum
  noRank :: bool

definition parseOperation :: "(jsstring \<Rightarrow> jsstring) \<Rightarrow> config \<Rightarrow> jsstring \<Rightarrow> parsed_operation option" where
  "parseOperation toLowerCase cfg text =
     (let noRank' = testNoRank False text;
          cleanText = trim (replaceNoRank False text)
      in case matchOperation [] cleanText of
           None \<Rightarrow> None
         | Some (alias, op, valueStr) \<Rightarrow>
             (case getItemName toLowerCase cfg (trim alias) of
                None \<Rightarrow> None
              | Some itemName' \<Rightarrow>
                  (case parseInt10 valueStr of
                     None \<Rightarrow> None
                   | Some v \<Rightarrow>
                       Some \<lparr>itemName = itemName', operation = op, opValue = v,
                             noRank = noRank'\<rparr>)))"

text \<open>
  The configuration the plugin ships with: one item, whose name is the three code units
  U+7EAF U+51C0 U+6C34 (pure water), with the aliases \<^verbatim>\<open>water\<close>, the single code unit
  U+6C34 (water) and the name itself.
\<close>

definition pureWater :: jsstring where
  "pureWater = [0x7EAF, 0x51C0, 0x6C34]"

definition waterConfig :: item_config where
  "waterConfig = \<lparr>name = pureWater, aliases = [js ''water'', [0x6C34], pureWater]\<rparr>"

definition defaultConfig :: config where
  "defaultConfig =
     \<lparr>whitelistGroups = [], getCodeTag = js ''wmc_ref'', items = [waterConfig]\<rparr>"

section \<open>Items, history entries and the plugin's state\<close>

record stock_item = item_config +
  count :: jsnum
  totalAdded :: jsnum
  totalConsumed :: jsnum

record stock_record =
  recId :: int
  recItemName :: jsstring
  userId :: jsstring
  userName :: jsstring
  change :: jsnum
  timestamp :: int
  isRanked :: bool

text \<open>
  A timer variable (\<^verbatim>\<open>saveTimer\<close>, \<^verbatim>\<open>recordsTimer\<close>) is \<^verbatim>\<open>null\<close>, or holds the handle of
  a timeout that is still to run, or the handle of one that has run already.
\<close>

datatype timer = NoTimer | Pending | Expired

text \<open>
  The closure variables of \<^verbatim>\<open>apply\<close> and the two files. A file is \<open>None\<close> when reading it
  gives nothing (missing, blank or unreadable). The state is the one after
  \<^verbatim>\<open>ensureInitialized\<close>. \<open>stockData\<close> holds its items by value: in the source
  \<^verbatim>\<open>stockData.get\<close> hands out the stored object, and what is written to it is seen
  under its key at once, which the functions below write out as an update of the map.
  Identifiers and timestamps (\<^verbatim>\<open>Date.now()\<close>) are integers far below \<open>2^53\<close>: \<open>int\<close>.
  Each function below is one call that runs to its end with no other handler running
  between its \<^verbatim>\<open>await\<close>s.
\<close>

record state =
  stockData :: "jsstring \<rightharpoonup> stock_item"
  nextRecordId :: int
  recordsCache :: "stock_record list option"
  saveTimer :: timer
  recordsTimer :: timer
  itemsFile :: "(jsstring \<rightharpoonup> stock_item) option"
  recordsFile :: "stock_record list option"

datatype error = IoError

datatype io_result = IoOk | MkdirFails | WriteFails

section \<open>Persistence\<close>

definition saveStockData :: "io_result \<Rightarrow> state \<Rightarrow> error + state" where
  \<comment> \<open>writes every item of \<open>stockData\<close>; an error is logged and thrown again\<close>
  "saveStockData io st =
     (if io = IoOk then Inr (st\<lparr>itemsFile := Some (stockData st)\<rparr>) else Inl IoError)"

definition saveStockItem :: "stock_item \<Rightarrow> state \<Rightarrow> state" where
  \<comment> \<open>\<^verbatim>\<open>stockData.set(item.name, item)\<close>, then the timeout is cleared if there is one and
      set again: nothing is written here, and nothing can throw\<close>
  "saveStockItem item st =
     st\<lparr>stockData := (stockData st)(name item \<mapsto> item), saveTimer := Pending\<rparr>"

definition saveTimerCallback :: "io_result \<Rightarrow> state \<Rightarrow> error option \<times> state" where
  \<comment> \<open>\<^verbatim>\<open>async () => { await saveStockData(); saveTimer = null }\<close>, run by the timeout when
      it is due. An error leaves the callback as a rejected promise that nothing awaits.\<close>
  "saveTimerCallback io st =
     (if saveTimer st \<noteq> Pending then (None, st)
      else case saveStockData io st of
             Inl e \<Rightarrow> (Some e, st\<lparr>saveTimer := Expired\<rparr>)
           | Inr st' \<Rightarrow> (None, st'\<lparr>saveTimer := NoTimer\<rparr>))"

definition maxId :: "stock_record list \<Rightarrow> int" where
  \<comment> \<open>\<^verbatim>\<open>Math.max(...records.map(r => r.id || 0))\<close> of a list that is not empty\<close>
  "maxId records = (case map recId records of [] \<Rightarrow> 0 | i # is \<Rightarrow> fold max is i)"

definition loadRecords :: "state \<Rightarrow> stock_record list \<times> state" where
  "loadRecords st =
     (case recordsFile st of
        None \<Rightarrow> ([], st)
      | Some records \<Rightarrow>
          (records,
           if records \<noteq> [] then st\<lparr>nextRecordId := maxId records + 1\<rparr> else st))"


definition addRecord :: "stock_record \<Rightarrow> state \<Rightarrow> state" where
  "addRecord record st =
     (let (cache, st1) = (case recordsCache st of None \<Rightarrow> loadRecords st | Some c \<Rightarrow> (c, st));
          record' = record\<lparr>recId := nextRecordId st1\<rparr>
      in st1\<lparr>nextRecordId := nextRecordId st1 + 1,
             recordsCache := Some (cache @ [record']),
             recordsTimer := Pending\<rparr>)"


definition getRecords :: "state \<Rightarrow> stock_record list \<times> state" where
  "getRecords st =
     (case recordsCache st of
        None \<Rightarrow> (let (records, st1) = loadRecords st in (records, st1\<lparr>recordsCache := Some records\<rparr>))
      | Some c \<Rightarrow> (c, st))"

section \<open>Ranking\<close>

datatype ranking_type = Consume | Add

record user_stat =
  statName :: jsstring
  statCount :: jsnum

text \<open>
  What \<^verbatim>\<open>getRanking\<close> returns: the empty string; one of its two placeholders, which say
  in Chinese that there is no consumption record yet or no addition record yet; or the lines
  \<^verbatim>\<open>${index + 1}. ${stat.name}: ${stat.count}\<close> (each followed by the unit, bottles) joined by
  line feeds.
\<close>

datatype ranking_text =
    EmptyText
  | NoRecords ranking_type
  | RankingLines "user_stat list"

text \<open>
  \<^verbatim>\<open>userStats\<close> is a \<^verbatim>\<open>Map\<close>, which keeps its keys in the order they were first set:
  an association list. \<^verbatim>\<open>userStats.get(key) || { name: r.userName, count: 0 }\<close> makes an
  entry with the record's user name only when the key is new; an entry that exists keeps
  its name and has its count raised.
\<close>

fun addStat :: "(jsstring \<times> user_stat) list \<Rightarrow> jsstring \<Rightarrow> jsstring \<Rightarrow> jsnum \<Rightarrow> (jsstring \<times> user_stat) list" where
  "addStat [] key nm amount = [(key, \<lparr>statName = nm, statCount = jsAdd (Fin 0) amount\<rparr>)]"
| "addStat ((k, current) # rest) key nm amount =
     (if k = key then (k, current\<lparr>statCount := jsAdd (statCount current) amount\<rparr>) # rest
      else (k, current) # addStat rest key nm amount)"

definition collectStat :: "ranking_type \<Rightarrow> (jsstring \<times> user_stat) list \<Rightarrow> stock_record \<Rightarrow> (jsstring \<times> user_stat) list" where
  \<comment> \<open>the body of \<^verbatim>\<open>relevantRecords.forEach\<close>\<close>
  "collectStat type userStats r =
     (if type = Consume \<and> jsLt (change r) (Fin 0)
      then addStat userStats (userId r) (userName r) (jsAbs (change r))
      else if type = Add \<and> jsLt (Fin 0) (change r)
      then addStat userStats (userId r) (userName r) (change r)
      else userStats)"

definition getRanking :: "jsstring \<Rightarrow> ranking_type \<Rightarrow> state \<Rightarrow> ranking_text \<times> state" where
  "getRanking itemName' type st =
     (case stockData st itemName' of
        None \<Rightarrow> (EmptyText, st)
      | Some item \<Rightarrow>
          (let (allRecords, st1) = getRecords st;
               relevantRecords = filter (\<lambda>r. recItemName r = itemName' \<and> isRanked r) allRecords;
               userStats = foldl (collectStat type) [] relevantRecords;
               sorted = take 10 (jsSort (\<lambda>a b. jsSub (statCount b) (statCount a))
                                         (map snd userStats))
           in (if sorted = [] then NoRecords type else RankingLines sorted, st1)))"

section \<open>The inventory engine\<close>

record session =
  sessionUserId :: "jsstring option"
  nickname :: "jsstring option"
  username :: "jsstring option"
  channelId :: "jsstring option"

text \<open>
  What a handler reads from outside: \<^verbatim>\<open>Date.now()\<close>, the six hex digits of
  \<^verbatim>\<open>randomBytes(3)\<close>, and whether the \<^verbatim>\<open>session.send\<close> inside the \<^verbatim>\<open>try\<close> block of
  \<^verbatim>\<open>handleOperation\<close> throws. \<^verbatim>\<open>saveStockItem\<close> only sets a timeout and \<^verbatim>\<open>loadRecords\<close>
  catches its own errors, so with files that the plugin wrote itself nothing else in that
  block throws.
\<close>

record env =
  now :: int
  rand6 :: jsstring
  sendThrows :: bool

definition orElse :: "jsstring option \<Rightarrow> jsstring \<Rightarrow> jsstring" where
  \<comment> \<open>\<^verbatim>\<open>a || b\<close> on strings: \<^verbatim>\<open>undefined\<close> and the empty string are falsy\<close>
  "orElse a b = (case a of None \<Rightarrow> b | Some s \<Rightarrow> if s = [] then b else s)"

text \<open>The verification code \<^verbatim>\<open>${tag}: ${timestamp}_${userId}_${itemName}_${rand6}\<close>.\<close>

datatype get_code = GetCode jsstring int jsstring jsstring jsstring

definition createGetCode :: "config \<Rightarrow> env \<Rightarrow> int \<Rightarrow> jsstring \<Rightarrow> jsstring \<Rightarrow> get_code" where
  "createGetCode cfg e timestamp' userId' itemName' =
     (let t1 = trim (orElse (Some (getCodeTag cfg)) (js ''wmc_ref''));
          t2 = (if t1 \<noteq> [] \<and> last t1 = 0x3A then butlast t1 else t1);
          tag = orElse (Some t2) (js ''wmc_ref'')
      in GetCode tag timestamp' userId' itemName' (rand6 e))"

text \<open>
  The messages of \<^verbatim>\<open>handleOperation\<close>, which are in Chinese in the source:
  \<^item> \<open>ItemMissing n\<close>: error, the item \<open>n\<close> does not exist;
  \<^item> \<open>StockUnchanged n c\<close>: the stock of \<open>n\<close> is unchanged, the current stock is \<open>c\<close>;
  \<^item> \<open>StockChanged n actualOp a c ranking code\<close>: \<open>n\<close>, then \<open>actualOp\<close> and the amount \<open>a\<close>,
    then the current stock \<open>c\<close>, then the ranking under its title, or the remark that the
    operation is not counted in the ranking when there is none, then the verification code;
  \<^item> \<open>SaveFailed n\<close>: the operation failed, the data of \<open>n\<close> could not be saved, try again
    later.
\<close>

datatype reply =
    ItemMissing jsstring
  | StockUnchanged jsstring jsnum
  | StockChanged jsstring operator jsnum jsnum "ranking_text option" get_code
  | SaveFailed jsstring

text \<open>
  Lines 319 to 361 of \<^verbatim>\<open>handleOperation\<close>: the new item with \<^verbatim>\<open>change\<close> and
  \<^verbatim>\<open>actualOp\<close>, or \<open>None\<close> where the source returns early because \<^verbatim>\<open>diff\<close> is 0.
\<close>

definition applyOperation :: "parsed_operation \<Rightarrow> stock_item \<Rightarrow> (jsnum \<times> operator \<times> stock_item) option" where
  "applyOperation op item =
     (case operation op of
        OpPlus \<Rightarrow>
          Some (opValue op, OpPlus,
                item\<lparr>count := jsAdd (count item) (opValue op),
                     totalAdded := (if \<not> noRank op then jsAdd (totalAdded item) (opValue op)
                                    else totalAdded item)\<rparr>)
      | OpMinus \<Rightarrow>
          Some (jsNeg (opValue op), OpMinus,
                item\<lparr>count := (if jsLt (jsSub (count item) (opValue op)) (Fin 0) then Fin 0
                               else jsSub (count item) (opValue op)),
                     totalConsumed := (if \<not> noRank op then jsAdd (totalConsumed item) (opValue op)
                                       else totalConsumed item)\<rparr>)
      | OpSet \<Rightarrow>
          (let diff = jsSub (opValue op) (count item)
           in if jsLt (Fin 0) diff then
                Some (diff, OpPlus,
                      item\<lparr>count := opValue op,
                           totalAdded := (if \<not> noRank op then jsAdd (totalAdded item) diff
                                          else totalAdded item)\<rparr>)
              else if jsLt diff (Fin 0) then
                Some (diff, OpMinus,
                      item\<lparr>count := opValue op,
                           totalConsumed := (if \<not> noRank op
                                             then jsAdd (totalConsumed item) (jsAbs diff)
                                             else totalConsumed item)\<rparr>)
              else None))"

definition unknownUser :: jsstring where
  \<comment> \<open>the default user name, unknown user in Chinese\<close>
  "unknownUser = [0x672A, 0x77E5, 0x7528, 0x6237]"

definition handleOperation :: "config \<Rightarrow> env \<Rightarrow> session \<Rightarrow> parsed_operation \<Rightarrow> state \<Rightarrow> reply \<times> state" where
  "handleOperation cfg e session' op st =
     (case stockData st (itemName op) of
        None \<Rightarrow> (ItemMissing (itemName op), st)
      | Some item \<Rightarrow>
          (case applyOperation op item of
             None \<Rightarrow> (StockUnchanged (itemName op) (count item), st)
           | Some (change', actualOp, item') \<Rightarrow>
               (let st1 = saveStockItem item' (st\<lparr>stockData := (stockData st)(itemName op \<mapsto> item')\<rparr>);
                    opTimestamp = now e;
                    record = \<lparr>recId = 0, recItemName = itemName op,
                              userId = orElse (sessionUserId session') (js ''unknown''),
                              userName = orElse (nickname session') (orElse (username session') unknownUser),
                              change = change', timestamp = opTimestamp,
                              isRanked = (\<not> noRank op)\<rparr>;
                    st2 = addRecord record st1;
                    getCode = createGetCode cfg e opTimestamp (userId record) (itemName op);
                    (ranking, st3) =
                      (if \<not> noRank op
                       then (let (r, s) = getRanking (itemName op)
                                            (if actualOp = OpPlus then Add else Consume) st2
                             in (Some r, s))
                       else (None, st2))
                in if sendThrows e then (SaveFailed (itemName op), st3)
                   else (StockChanged (itemName op) actualOp (jsAbs change') (count item') ranking getCode,
                         st3))))"

section \<open>The command \<^verbatim>\<open>stock.set\<close>\<close>

definition isWhitelisted :: "config \<Rightarrow> jsstring \<Rightarrow> bool" where
  "isWhitelisted cfg groupId = (whitelistGroups cfg = [] \<or> groupId \<in> set (whitelistGroups cfg))"

text \<open>
  The answers of the command, in Chinese in the source: the group is not on the whitelist;
  name an item; give a count; no such item found; the item does not exist; and the stock of
  \<^verbatim>\<open>${itemName}\<close> was set to \<^verbatim>\<open>${count}\<close>, followed by the verification code. The
  \<^verbatim>\<open>try\<close> block holds no call that can throw, so its \<^verbatim>\<open>catch\<close> has no branch here.
\<close>

datatype set_reply =
    NotWhitelisted
  | NeedItem
  | NeedCount
  | AliasNotFound
  | ItemNotInStock
  | CountSet jsstring jsnum get_code

definition stockSet :: "(jsstring \<Rightarrow> jsstring) \<Rightarrow> config \<Rightarrow> env \<Rightarrow> session \<Rightarrow> jsstring \<Rightarrow> jsnum option \<Rightarrow> state \<Rightarrow> set_reply option \<times> state" where
  "stockSet toLowerCase cfg e session' item count' st =
     (case channelId session' of
        None \<Rightarrow> (None, st)
      | Some ch \<Rightarrow>
          if ch = [] then (None, st)
          else if \<not> isWhitelisted cfg ch then (Some NotWhitelisted, st)
          else if item = [] then (Some NeedItem, st)
          else (case count' of
                  None \<Rightarrow> (Some NeedCount, st)
                | Some c \<Rightarrow>
                    (case getItemName toLowerCase cfg item of
                       None \<Rightarrow> (Some AliasNotFound, st)
                     | Some itemName' \<Rightarrow>
                         (case stockData st itemName' of
                            None \<Rightarrow> (Some ItemNotInStock, st)
                          | Some stockItem \<Rightarrow>
                              (let stockItem' = stockItem\<lparr>count := c\<rparr>;
                                   st1 = saveStockItem stockItem'
                                           (st\<lparr>stockData := (stockData st)(itemName' \<mapsto> stockItem')\<rparr>);
                                   getCode = createGetCode cfg e (now e)
                                               (orElse (sessionUserId session') (js ''unknown'')) itemName'
                               in (Some (CountSet itemName' c getCode), st1))))))"

section \<open>The initial state\<close>

text \<open>
  The state after \<^verbatim>\<open>loadStockData\<close> found no items file and wrote one: every configured
  item with its counters at 0, no history loaded yet.
\<close>

definition freshItem :: "item_config \<Rightarrow> stock_item" where
  "freshItem it =
     \<lparr>name = name it, aliases = aliases it, count = Fin 0, totalAdded = Fin 0,
      totalConsumed = Fin 0\<rparr>"

definition seedStock :: "config \<Rightarrow> (jsstring \<rightharpoonup> stock_item)" where
  "seedStock cfg = foldl (\<lambda>m it. m(name it \<mapsto> freshItem it)) Map.empty (items cfg)"

definition initialState :: "config \<Rightarrow> state" where
  "initialState cfg =
     \<lparr>stockData = seedStock cfg,
      nextRecordId = 1, recordsCache = None, saveTimer = NoTimer, recordsTimer = NoTimer,
      itemsFile = Some (seedStock cfg), recordsFile = None\<rparr>"

section \<open>Example inputs\<close>

text \<open>
  The scenario of the default configuration: one user in one group, and states in which the
  configured item has a given count and given totals.
\<close>

definition exampleEnv :: env where
  "exampleEnv = \<lparr>now = 1700000000000, rand6 = js ''a1b2c3'', sendThrows = False\<rparr>"

definition exampleSession :: session where
  "exampleSession =
     \<lparr>sessionUserId = Some (js ''10001''), nickname = Some (js ''alice''), username = None,
      channelId = Some (js ''group1'')\<rparr>"

definition waterItem :: "int \<Rightarrow> int \<Rightarrow> int \<Rightarrow> stock_item" where
  "waterItem c a k =
     (freshItem waterConfig)\<lparr>count := Fin c, totalAdded := Fin a, totalConsumed := Fin k\<rparr>"

definition waterState :: "int \<Rightarrow> int \<Rightarrow> int \<Rightarrow> state" where
  "waterState c a k = (initialState defaultConfig)\<lparr>stockData := [pureWater \<mapsto> waterItem c a k]\<rparr>"

definition waterOp :: "operator \<Rightarrow> int \<Rightarrow> parsed_operation" where
  "waterOp o' v = \<lparr>itemName = pureWater, operation = o', opValue = Fin v, noRank = False\<rparr>"












section \<open>Rounding to a double\<close>

text \<open>
  \<open>bitLength n\<close> is the number of binary digits of a positive \<open>n\<close>. Up to \<open>2^53\<close> every
  integer is a double; beyond, a rounded magnitude keeps at least its leading power of two,
  and from \<open>2^1024\<close> on the result is infinite. Rounding keeps the sign.
\<close>

lemma bitLength_pos: "0 < n \<Longrightarrow> bitLength n = Suc (bitLength (n div 2))"
  by (simp add: bitLength.simps [of n])

lemma bitLength_nonpos: "n \<le> 0 \<Longrightarrow> bitLength n = 0"
  by (simp add: bitLength.simps [of n])

lemma bitLength_lower: "0 < n \<Longrightarrow> 2 ^ (bitLength n - 1) \<le> n"
proof (induction n rule: bitLength.induct)
  case (1 n)
  show ?case
  proof (cases "0 < n div 2")
    case False
    with 1(2) have "n = 1" by auto
    then show ?thesis by (simp add: bitLength_pos bitLength_nonpos)
  next
    case True
    with 1 have ih: "2 ^ (bitLength (n div 2) - 1) \<le> n div 2" by simp
    have "0 < bitLength (n div 2)"
      using True by (simp add: bitLength_pos)
    then have "bitLength n - 1 = Suc (bitLength (n div 2) - 1)"
      using 1(2) by (simp add: bitLength_pos)
    then have "(2::int) ^ (bitLength n - 1) = 2 * 2 ^ (bitLength (n div 2) - 1)"
      by simp
    also have "\<dots> \<le> 2 * (n div 2)" using ih by simp
    also have "\<dots> \<le> n" by simp
    finally show ?thesis .
  qed
qed

lemma bitLength_upper: "n < 2 ^ bitLength n"
proof (induction n rule: bitLength.induct)
  case (1 n)
  show ?case
  proof (cases "0 < n")
    case False
    then show ?thesis by (simp add: bitLength_nonpos)
  next
    case True
    with 1 have "n div 2 < 2 ^ bitLength (n div 2)" by simp
    then have "n < 2 * 2 ^ bitLength (n div 2)" by linarith
    with True show ?thesis by (simp add: bitLength_pos)
  qed
qed

lemma roundMagnitude_small: "n \<le> 2 ^ 53 \<Longrightarrow> roundMagnitude n = n"
proof (cases "n < 2 ^ 53")
  case True
  then show ?thesis by (simp add: roundMagnitude_def)
next
  case False
  assume "n \<le> 2 ^ 53"
  with False have "n = 2 ^ 53" by simp
  moreover have "roundMagnitude (2 ^ 53) = 2 ^ 53" by code_simp
  ultimately show ?thesis by simp
qed

lemma roundMagnitude_lower:
  assumes "2 ^ 53 \<le> n"
  shows "2 ^ (bitLength n - 1) \<le> roundMagnitude n"
proof -
  let ?k = "bitLength n"
  let ?u = "(2::int) ^ (?k - 53)"
  let ?q = "n div ?u"
  have pos: "0 < n" using assms by (rule less_le_trans [rotated]) simp
  have "(2::int) ^ 53 < 2 ^ ?k"
    using assms bitLength_upper [of n] by linarith
  then have k: "53 < ?k"
    by (rule power_less_imp_less_exp [rotated]) simp
  have low: "2 ^ (?k - 1) \<le> n" using pos by (rule bitLength_lower)
  have e: "?k - 1 = 52 + (?k - 53)"
    using k by simp
  have split: "(2::int) ^ (?k - 1) = 2 ^ 52 * ?u"
    unfolding e by (rule power_add)
  have "2 ^ 52 * ?u div ?u \<le> n div ?u"
    using low unfolding split by (rule zdiv_mono1) simp
  then have q: "2 ^ 52 \<le> ?q" by simp
  have "2 ^ 52 * ?u \<le> ?q * ?u"
    using q by (simp add: mult_right_mono)
  moreover have "?q * ?u \<le> (?q + 1) * ?u"
    by (simp add: mult_right_mono)
  ultimately show ?thesis
    using assms unfolding split by (auto simp: roundMagnitude_def Let_def)
qed

lemma roundMagnitude_pos: "0 < n \<Longrightarrow> 0 < roundMagnitude n"
proof (cases "n < 2 ^ 53")
  case True
  assume "0 < n"
  with True show ?thesis by (simp add: roundMagnitude_def)
next
  case False
  then have "2 ^ (bitLength n - 1) \<le> roundMagnitude n"
    by (intro roundMagnitude_lower) simp
  moreover have "(0::int) < 2 ^ (bitLength n - 1)" by simp
  ultimately show ?thesis by linarith
qed

lemma toDouble_exact: "\<bar>n\<bar> \<le> 2 ^ 53 \<Longrightarrow> toDouble n = Fin n"
proof -
  assume b: "\<bar>n\<bar> \<le> 2 ^ 53"
  then have r: "roundMagnitude \<bar>n\<bar> = \<bar>n\<bar>" by (rule roundMagnitude_small)
  have "(2::int) ^ 53 < 2 ^ 1024" by simp
  with b have "\<bar>n\<bar> < 2 ^ 1024" by linarith
  then show ?thesis
    by (simp add: toDouble_def r Let_def)
qed

lemma toDouble_zero [simp]: "toDouble 0 = Fin 0"
  by (simp add: toDouble_exact)

lemma toDouble_overflow: "2 ^ 1024 \<le> n \<Longrightarrow> toDouble n = PosInf"
proof -
  assume big: "2 ^ 1024 \<le> n"
  then have n: "0 \<le> n" "\<bar>n\<bar> = n" by simp_all
  have "(2::int) ^ 1024 < 2 ^ bitLength n"
    using big bitLength_upper [of n] by linarith
  then have "1024 < bitLength n"
    by (rule power_less_imp_less_exp [rotated]) simp
  then have "(2::int) ^ 1024 \<le> 2 ^ (bitLength n - 1)"
    by (intro power_increasing) simp_all
  also have "\<dots> \<le> roundMagnitude n"
  proof (rule roundMagnitude_lower)
    have "(2::int) ^ 53 \<le> 2 ^ 1024" by simp
    then show "2 ^ 53 \<le> n" using big by (rule order_trans)
  qed
  finally show ?thesis
    using n by (simp add: toDouble_def Let_def)
qed

lemma toDouble_sign:
  "jsLt (Fin 0) (toDouble d) = (0 < d)" "jsLt (toDouble d) (Fin 0) = (d < 0)"
proof -
  have p: "d \<noteq> 0 \<Longrightarrow> 0 < roundMagnitude \<bar>d\<bar>"
    by (rule roundMagnitude_pos) simp
  have z: "d = 0 \<Longrightarrow> toDouble d = Fin 0" by simp
  show "jsLt (Fin 0) (toDouble d) = (0 < d)"
    using p z by (cases "d = 0") (auto simp: toDouble_def Let_def)
  show "jsLt (toDouble d) (Fin 0) = (d < 0)"
    using p z by (cases "d = 0") (auto simp: toDouble_def Let_def)
qed

text \<open>
  A string of \<open>n\<close> nines has the value \<open>10^n - 1\<close>: 310 of them are beyond the largest
  double.
\<close>

lemma digitValue_nines_aux:
  "foldl (\<lambda>acc d. 10 * acc + uint (d - (0x30 :: code_unit))) a (replicate n 0x39) = (a + 1) * 10 ^ n - 1"
proof (induction n arbitrary: a)
  case 0
  then show ?case by simp
next
  case (Suc n)
  let ?f = "\<lambda>acc d. 10 * acc + uint (d - (0x30 :: code_unit))"
  have u: "uint ((0x39 :: code_unit) - 0x30) = 9" by simp
  have "foldl ?f a (replicate (Suc n) 0x39) = foldl ?f (10 * a + 9) (replicate n 0x39)"
    by (simp only: replicate_Suc foldl_Cons u)
  also have "\<dots> = (10 * a + 9 + 1) * 10 ^ n - 1"
    by (rule Suc.IH)
  also have "\<dots> = (a + 1) * 10 ^ Suc n - 1"
    by (simp add: algebra_simps)
  finally show ?case .
qed

lemma digitValue_nines: "digitValue (replicate n 0x39) = 10 ^ n - 1"
  by (simp add: digitValue_def digitValue_nines_aux)

lemma nines_overflow: "toDouble (digitValue (replicate 310 0x39)) = PosInf"
  unfolding digitValue_nines by (rule toDouble_overflow) simp

text \<open>
  Rounding a second time changes nothing, so every result of \<open>toDouble\<close>, and with it every
  sum and difference, is a double.
\<close>

lemma bitLength_unique:
  assumes "2 ^ (j - 1) \<le> n" and "n < 2 ^ j" and "0 < j"
  shows "bitLength n = j"
proof -
  have pos: "0 < n"
    using assms(1) by (rule less_le_trans [rotated]) simp
  have "(2::int) ^ (bitLength n - 1) < 2 ^ j"
    using bitLength_lower [OF pos] assms(2) by linarith
  then have a: "bitLength n - 1 < j"
    by (rule power_less_imp_less_exp [rotated]) simp
  have "(2::int) ^ (j - 1) < 2 ^ bitLength n"
    using bitLength_upper [of n] assms(1) by linarith
  then have b: "j - 1 < bitLength n"
    by (rule power_less_imp_less_exp [rotated]) simp
  from a b assms(3) show ?thesis by linarith
qed

lemma roundMagnitude_shape:
  assumes "2 ^ 53 \<le> n"
  shows "\<exists>q. roundMagnitude n = q * 2 ^ (bitLength n - 53) \<and> 2 ^ 52 \<le> q \<and> q \<le> 2 ^ 53 \<and>
             53 < bitLength n"
proof -
  let ?k = "bitLength n"
  let ?u = "(2::int) ^ (?k - 53)"
  let ?q = "n div ?u"
  have pos: "0 < n" using assms by (rule less_le_trans [rotated]) simp
  have "(2::int) ^ 53 < 2 ^ ?k"
    using assms bitLength_upper [of n] by linarith
  then have k: "53 < ?k"
    by (rule power_less_imp_less_exp [rotated]) simp
  have low: "2 ^ (?k - 1) \<le> n" using pos by (rule bitLength_lower)
  have e: "?k - 1 = 52 + (?k - 53)" "?k = 53 + (?k - 53)"
    using k by simp_all
  have split: "(2::int) ^ (?k - 1) = 2 ^ 52 * ?u"
    unfolding e(1) by (rule power_add)
  have split2: "(2::int) ^ ?k = 2 ^ 53 * ?u"
    by (subst e(2)) (rule power_add)
  have "2 ^ 52 * ?u div ?u \<le> n div ?u"
    using low unfolding split by (rule zdiv_mono1) simp
  then have q: "2 ^ 52 \<le> ?q" by simp
  have "n < 2 ^ 53 * ?u"
    using bitLength_upper [of n] unfolding split2 .
  moreover have "?q * ?u \<le> n"
  proof -
    have "?u * ?q + n mod ?u = n" by (rule mult_div_mod_eq)
    moreover have "0 \<le> n mod ?u" by simp
    ultimately have "?u * ?q \<le> n" by linarith
    then show ?thesis by (simp only: mult.commute [of ?q ?u])
  qed
  ultimately have "?q * ?u < 2 ^ 53 * ?u" by linarith
  then have q2: "?q < 2 ^ 53"
    by (rule mult_right_less_imp_less) simp
  have not: "\<not> n < 2 ^ 53" using assms by simp
  show ?thesis
  proof (cases "?u < 2 * (n mod ?u) \<or> (2 * (n mod ?u) = ?u \<and> odd ?q)")
    case True
    then have "roundMagnitude n = (?q + 1) * ?u"
      using not by (simp add: roundMagnitude_def Let_def)
    with q q2 k show ?thesis
      by (intro exI [of _ "?q + 1"]) simp
  next
    case False
    then have "roundMagnitude n = ?q * ?u"
      using not by (simp add: roundMagnitude_def Let_def)
    with q q2 k show ?thesis
      by (intro exI [of _ "?q"]) simp
  qed
qed

lemma roundMagnitude_of_multiple:
  assumes "2 ^ 52 \<le> q" and "q < 2 ^ 53" and "0 < e"
  shows "roundMagnitude (q * 2 ^ e) = q * 2 ^ e"
proof -
  let ?m = "q * (2::int) ^ e"
  have "(2::int) ^ (52 + e) \<le> ?m"
    using assms(1) by (simp add: power_add mult_right_mono)
  moreover have "?m < 2 ^ (53 + e)"
    using assms(2) by (simp add: power_add)
  ultimately have b: "bitLength ?m = 53 + e"
    by (intro bitLength_unique) simp_all
  have "(2::int) ^ 53 \<le> 2 ^ (52 + e)"
    using assms(3) by (intro power_increasing) simp_all
  also have "\<dots> \<le> ?m"
    using assms(1) by (simp add: power_add mult_right_mono)
  finally have big: "\<not> ?m < 2 ^ 53" by simp
  show ?thesis
    using big by (simp add: roundMagnitude_def Let_def b)
qed

lemma roundMagnitude_of_power:
  assumes "53 \<le> k"
  shows "roundMagnitude (2 ^ k) = 2 ^ k"
proof (cases "k = 53")
  case True
  then show ?thesis by (simp add: roundMagnitude_small)
next
  case False
  with assms have e: "k = 52 + (k - 52)" "0 < k - 52" "1 < k - 52" by simp_all
  have "roundMagnitude (2 ^ 52 * 2 ^ (k - 52)) = 2 ^ 52 * 2 ^ (k - 52)"
    using e(2) by (intro roundMagnitude_of_multiple) simp_all
  moreover have "(2::int) ^ k = 2 ^ 52 * 2 ^ (k - 52)"
    by (subst e(1)) (rule power_add)
  ultimately show ?thesis by simp
qed

lemma roundMagnitude_idem: "roundMagnitude (roundMagnitude n) = roundMagnitude n"
proof (cases "n < 2 ^ 53")
  case True
  then show ?thesis by (simp add: roundMagnitude_def)
next
  case False
  then have "2 ^ 53 \<le> n" by simp
  then obtain q where r: "roundMagnitude n = q * 2 ^ (bitLength n - 53)"
    and q: "2 ^ 52 \<le> q" "q \<le> 2 ^ 53" and k: "53 < bitLength n"
    using roundMagnitude_shape by blast
  show ?thesis
  proof (cases "q = 2 ^ 53")
    case True
    have "(2::int) ^ 53 * 2 ^ (bitLength n - 53) = 2 ^ (53 + (bitLength n - 53))"
      by (simp only: power_add)
    with True r have "roundMagnitude n = 2 ^ (53 + (bitLength n - 53))" by simp
    then show ?thesis
      by (simp only: roundMagnitude_of_power le_add1)
  next
    case False
    with q have "q < 2 ^ 53" by simp
    with q(1) k show ?thesis
      unfolding r by (intro roundMagnitude_of_multiple) simp_all
  qed
qed

lemma roundMagnitude_nonneg: "0 \<le> n \<Longrightarrow> 0 \<le> roundMagnitude n"
  using roundMagnitude_pos [of n] by (cases "n = 0") (simp_all add: roundMagnitude_def)

lemma isDouble_toDouble: "isDouble (toDouble n)"
proof -
  let ?m = "roundMagnitude \<bar>n\<bar>"
  have m: "0 \<le> ?m" by (rule roundMagnitude_nonneg) simp
  have i: "roundMagnitude ?m = ?m" by (rule roundMagnitude_idem)
  have z: "n < 0 \<Longrightarrow> 0 < ?m" by (rule roundMagnitude_pos) simp
  show ?thesis
  proof (cases "2 ^ 1024 \<le> ?m")
    case True
    then show ?thesis by (simp add: toDouble_def isDouble_def Let_def)
  next
    case False
    show ?thesis
    proof (cases "n < 0")
      case True
      with z have "\<bar>- ?m\<bar> = ?m" "- ?m < 0" by simp_all
      with False True i show ?thesis
        by (simp add: toDouble_def isDouble_def Let_def)
    next
      case n: False
      from m have "\<bar>?m\<bar> = ?m" "\<not> ?m < 0" by simp_all
      with False n i show ?thesis
        by (simp add: toDouble_def isDouble_def Let_def)
    qed
  qed
qed

lemma isDouble_jsNeg: "isDouble x \<Longrightarrow> isDouble (jsNeg x)"
proof (cases x)
  case (Fin a)
  assume "isDouble x"
  with Fin have t: "toDouble a = Fin a" by (simp add: isDouble_def)
  have "toDouble (- a) = Fin (- a)"
  proof (cases "a = 0")
    case True
    then show ?thesis by simp
  next
    case False
    have p: "0 < roundMagnitude \<bar>a\<bar>" using False by (intro roundMagnitude_pos) simp
    from t p False show ?thesis
      by (auto simp: toDouble_def Let_def split: if_splits)
  qed
  with Fin show ?thesis by (simp add: isDouble_def)
qed (simp_all add: isDouble_def)

lemma isDouble_jsAbs: "isDouble x \<Longrightarrow> isDouble (jsAbs x)"
proof (cases x)
  case (Fin a)
  assume d: "isDouble x"
  show ?thesis
  proof (cases "a < 0")
    case True
    with Fin have "jsAbs x = jsNeg x" by simp
    with d show ?thesis by (simp only: isDouble_jsNeg)
  next
    case False
    with Fin have "jsAbs x = x" by simp
    with d show ?thesis by simp
  qed
qed (simp_all add: isDouble_def)

lemma isDouble_jsAdd: "isDouble (jsAdd x y)"
  by (cases x; cases y) (simp_all add: isDouble_toDouble, simp_all add: isDouble_def)

lemma isDouble_jsSub: "isDouble (jsSub x y)"
  by (simp add: jsSub_def isDouble_jsAdd)

section \<open>What an operation does to an item\<close>

lemma jsSub_self: "\<not> jsLt (Fin 0) (jsSub x x)" "\<not> jsLt (jsSub x x) (Fin 0)"
  by (cases x; simp add: jsSub_def)+

lemma jsAdd_zero: "isDouble x \<Longrightarrow> jsAdd x (Fin 0) = x"
  by (cases x) (simp_all add: isDouble_def)

lemma jsSub_zero: "isDouble x \<Longrightarrow> jsSub x (Fin 0) = x"
  by (simp add: jsSub_def jsAdd_zero)



lemma handleOperation_changed:
  assumes "stockData st (itemName op) = Some item"
      and "applyOperation op item = Some (ch, aop, item')"
  shows "stockData (snd (handleOperation cfg e s op st)) (itemName op) = Some item'"
    and "recordsCache (snd (handleOperation cfg e s op st)) =
           Some (fst (getRecords st) @
                 [\<lparr>recId = nextRecordId (snd (getRecords st)), recItemName = itemName op,
                   userId = orElse (sessionUserId s) (js ''unknown''),
                   userName = orElse (nickname s) (orElse (username s) unknownUser),
                   change = ch, timestamp = now e, isRanked = (\<not> noRank op)\<rparr>])"
    and "saveTimer (snd (handleOperation cfg e s op st)) = Pending"
    and "recordsTimer (snd (handleOperation cfg e s op st)) = Pending"
  using assms
  by (auto simp: handleOperation_def saveStockItem_def addRecord_def getRanking_def
        getRecords_def loadRecords_def Let_def split: option.splits prod.splits)

lemma handleOperation_reply:
  assumes "stockData st (itemName op) = Some item"
      and "applyOperation op item = Some (ch, aop, item')"
      and "\<not> sendThrows e"
  shows "\<exists>ranking. fst (handleOperation cfg e s op st) =
           StockChanged (itemName op) aop (jsAbs ch) (count item') ranking
             (createGetCode cfg e (now e) (orElse (sessionUserId s) (js ''unknown'')) (itemName op))"
  using assms
  by (auto simp: handleOperation_def Let_def split: option.splits prod.splits)







text \<open>
  C4. A set operation to the count the item has already changes nothing at all: the state
  that comes back is the state that went in (no history entry, the same counters, no timeout
  set), and the reply is the notice that the stock is unchanged, not the success message.
\<close>

theorem set_to_current_count_is_noop:
  assumes "stockData st (itemName op) = Some item" and "operation op = OpSet"
      and "opValue op = count item"
  shows "handleOperation cfg e s op st = (StockUnchanged (itemName op) (count item), st)"
  using assms by (simp add: handleOperation_def applyOperation_def Let_def jsSub_self)

text \<open>
  Count 7 and \<^verbatim>\<open>water=7\<close>.
\<close>

theorem set_to_current_count_is_noop_witness:
  "stockData (waterState 7 5 13) (itemName (waterOp OpSet 7)) = Some (waterItem 7 5 13) \<and>
   operation (waterOp OpSet 7) = OpSet \<and>
   opValue (waterOp OpSet 7) = count (waterItem 7 5 13) \<and>
   handleOperation defaultConfig exampleEnv exampleSession (waterOp OpSet 7) (waterState 7 5 13)
     = (StockUnchanged pureWater (Fin 7), waterState 7 5 13)"
proof -
  let ?op = "waterOp OpSet 7"
  have h: "stockData (waterState 7 5 13) (itemName ?op) = Some (waterItem 7 5 13)"
    by (simp add: waterState_def waterOp_def)
  have o: "operation ?op = OpSet"
    by (simp add: waterOp_def)
  have v: "opValue ?op = count (waterItem 7 5 13)"
    by (simp add: waterItem_def waterOp_def)
  from set_to_current_count_is_noop [OF h o v, of defaultConfig exampleEnv exampleSession]
  show ?thesis using h o v by (simp add: waterOp_def waterItem_def)
qed

text \<open>
  C10, with the one case it misses. An increase or a decrease of magnitude 0 on an item of
  the stock table is not a no-op: a history entry with the change 0 is appended, ranked
  unless the operation is excluded, both timeouts are set, and, when sending the reply does
  not throw, the reply is the success message with its verification code. The totals are
  kept. The count is kept too, except that a decrease of 0 finds a count below 0 and clamps
  it to 0. The counters are doubles, as every number the plugin computes is.
\<close>

theorem zero_magnitude_is_recorded:
  assumes "stockData st (itemName op) = Some item"
      and "operation op = OpPlus \<or> operation op = OpMinus"
      and "opValue op = Fin 0"
      and "isDouble (count item)" and "isDouble (totalAdded item)"
      and "isDouble (totalConsumed item)"
      and "\<not> sendThrows e"
  shows "stockData (snd (handleOperation cfg e s op st)) (itemName op) =
           Some (item\<lparr>count := (if operation op = OpMinus \<and> jsLt (count item) (Fin 0)
                                  then Fin 0 else count item)\<rparr>) \<and>
         (\<exists>r. recordsCache (snd (handleOperation cfg e s op st)) = Some (fst (getRecords st) @ [r]) \<and>
              recItemName r = itemName op \<and> change r = Fin 0 \<and> isRanked r = (\<not> noRank op)) \<and>
         saveTimer (snd (handleOperation cfg e s op st)) = Pending \<and>
         recordsTimer (snd (handleOperation cfg e s op st)) = Pending \<and>
         (\<exists>ranking. fst (handleOperation cfg e s op st) =
            StockChanged (itemName op) (operation op) (Fin 0)
              (if operation op = OpMinus \<and> jsLt (count item) (Fin 0) then Fin 0 else count item)
              ranking
              (createGetCode cfg e (now e) (orElse (sessionUserId s) (js ''unknown'')) (itemName op)))"
proof -
  let ?item' = "item\<lparr>count := (if operation op = OpMinus \<and> jsLt (count item) (Fin 0)
                                  then Fin 0 else count item)\<rparr>"
  have ap: "applyOperation op item = Some (Fin 0, operation op, ?item')"
    using assms(2-6) by (auto simp: applyOperation_def jsAdd_zero jsSub_zero)
  show ?thesis
    using handleOperation_changed [OF assms(1) ap, of cfg e s]
          handleOperation_reply [OF assms(1) ap assms(7), of cfg s]
    by simp
qed

text \<open>
  \<^verbatim>\<open>water-0\<close> parses to a decrease of 0; on a count of 5 it leaves the item as it is and
  appends a ranked history entry with the change 0.
\<close>

theorem zero_magnitude_is_recorded_witness:
  "parseOperation asciiLower defaultConfig (js ''water-0'') = Some (waterOp OpMinus 0) \<and>
   stockData (waterState 5 5 0) (itemName (waterOp OpMinus 0)) = Some (waterItem 5 5 0) \<and>
   isDouble (count (waterItem 5 5 0)) \<and> isDouble (totalAdded (waterItem 5 5 0)) \<and>
   isDouble (totalConsumed (waterItem 5 5 0)) \<and> \<not> sendThrows exampleEnv \<and>
   stockData (snd (handleOperation defaultConfig exampleEnv exampleSession
       (waterOp OpMinus 0) (waterState 5 5 0))) pureWater
     = Some (waterItem 5 5 0) \<and>
   (\<exists>r. recordsCache (snd (handleOperation defaultConfig exampleEnv exampleSession
            (waterOp OpMinus 0) (waterState 5 5 0)))
          = Some (fst (getRecords (waterState 5 5 0)) @ [r]) \<and>
        change r = Fin 0 \<and> isRanked r) \<and>
   saveTimer (snd (handleOperation defaultConfig exampleEnv exampleSession
       (waterOp OpMinus 0) (waterState 5 5 0))) = Pending \<and>
   recordsTimer (snd (handleOperation defaultConfig exampleEnv exampleSession
       (waterOp OpMinus 0) (waterState 5 5 0))) = Pending \<and>
   (\<exists>ranking code. fst (handleOperation defaultConfig exampleEnv exampleSession
       (waterOp OpMinus 0) (waterState 5 5 0))
     = StockChanged pureWater OpMinus (Fin 0) (Fin 5) ranking code)"
proof -
  let ?op = "waterOp OpMinus 0"
  have p: "parseOperation asciiLower defaultConfig (js ''water-0'') = Some ?op"
    by code_simp
  have h: "stockData (waterState 5 5 0) (itemName ?op) = Some (waterItem 5 5 0)"
    by (simp add: waterState_def waterOp_def)
  have o: "operation ?op = OpPlus \<or> operation ?op = OpMinus" "opValue ?op = Fin 0"
    "operation ?op = OpMinus" "\<not> noRank ?op" "itemName ?op = pureWater"
    by (simp_all add: waterOp_def)
  have c: "count (waterItem 5 5 0) = Fin 5"
    by (simp add: waterItem_def)
  have d: "isDouble (count (waterItem 5 5 0))" "isDouble (totalAdded (waterItem 5 5 0))"
    "isDouble (totalConsumed (waterItem 5 5 0))"
    by (simp_all add: waterItem_def isDouble_def toDouble_exact)
  have e: "\<not> sendThrows exampleEnv"
    by (simp add: exampleEnv_def)
  have i: "(waterItem 5 5 0)\<lparr>count := Fin 5\<rparr> = waterItem 5 5 0"
    by (simp add: waterItem_def)
  from zero_magnitude_is_recorded [OF h o(1) o(2) d e, of defaultConfig exampleSession]
  show ?thesis using p h c d e o(3-5) i by simp blast
qed

text \<open>
  C10, as stated, fails on a count below 0, which \<^verbatim>\<open>stock.set\<close> can leave:
  \<^verbatim>\<open>stock.set water -5\<close> on the initial state, then \<^verbatim>\<open>water-0\<close>, moves the count from
  \<open>- 5\<close> to 0.
\<close>

theorem zero_decrease_clamps_negative_count:
  "map_option count
     (stockData (snd (stockSet asciiLower defaultConfig exampleEnv exampleSession (js ''water'')
                        (Some (Fin (- 5))) (initialState defaultConfig))) pureWater) = Some (Fin (- 5)) \<and>
   parseOperation asciiLower defaultConfig (js ''water-0'') = Some (waterOp OpMinus 0) \<and>
   map_option count
     (stockData (snd (handleOperation defaultConfig exampleEnv exampleSession (waterOp OpMinus 0)
        (snd (stockSet asciiLower defaultConfig exampleEnv exampleSession (js ''water'')
                (Some (Fin (- 5))) (initialState defaultConfig))))) pureWater) = Some (Fin 0)"
  by code_simp

section \<open>What the parser accepts\<close>

lemma operatorOf_operatorChar: "operatorOf (operatorChar o') = Some o'"
  by (cases o') (simp_all add: operatorOf_def operatorChar_def)

lemma operatorOf_Some: "operatorOf c = Some o' \<Longrightarrow> c = operatorChar o'"
  by (auto simp: operatorOf_def operatorChar_def split: if_splits)

lemma operatorChar_not_digit: "\<not> isDigit (operatorChar o')"
  by (cases o') (simp_all add: isDigit_def operatorChar_def)

lemma matchOperation_complete:
  assumes "acc @ p \<noteq> []" and "ds \<noteq> []" and "list_all isDigit ds"
      and "\<not> list_ex isLineTerminator p"
  shows "matchOperation acc (p @ operatorChar o' # ds) = Some (acc @ p, o', ds)"
  using assms
proof (induction p arbitrary: acc)
  case Nil
  then show ?case by (simp add: operatorOf_operatorChar)
next
  case (Cons c p)
  have "\<not> list_all isDigit (p @ operatorChar o' # ds)"
    by (simp add: operatorChar_not_digit)
  moreover have "matchOperation (acc @ [c]) (p @ operatorChar o' # ds) = Some ((acc @ [c]) @ p, o', ds)"
    using Cons.prems by (intro Cons.IH) simp_all
  ultimately show ?case using Cons.prems by (simp add: operatorChar_not_digit)
qed

lemma matchOperation_sound:
  assumes "matchOperation acc s = Some (a, o', ds)"
  shows "\<exists>p. a = acc @ p \<and> s = p @ operatorChar o' # ds \<and> a \<noteq> [] \<and> ds \<noteq> [] \<and>
             list_all isDigit ds \<and> \<not> list_ex isLineTerminator p"
  using assms
proof (induction s arbitrary: acc)
  case Nil
  then show ?case by simp
next
  case (Cons c cs)
  show ?case
  proof (cases "acc \<noteq> [] \<and> cs \<noteq> [] \<and> list_all isDigit cs \<and> operatorOf c \<noteq> None")
    case True
    then obtain o2 where o2: "operatorOf c = Some o2" by auto
    with True Cons.prems have "a = acc" "o' = o2" "ds = cs" by simp_all
    with True o2 show ?thesis
      by (intro exI [of _ "[]"]) (simp add: operatorOf_Some)
  next
    case False
    then have none: "(if acc \<noteq> [] \<and> cs \<noteq> [] \<and> list_all isDigit cs then operatorOf c else None) = None"
      by auto
    with Cons.prems have nl: "\<not> isLineTerminator c"
      and rec: "matchOperation (acc @ [c]) cs = Some (a, o', ds)"
      by (simp_all split: if_splits)
    from Cons.IH [OF rec] obtain p where
      "a = (acc @ [c]) @ p" "cs = p @ operatorChar o' # ds" "a \<noteq> []" "ds \<noteq> []"
      "list_all isDigit ds" "\<not> list_ex isLineTerminator p"
      by blast
    with nl show ?thesis
      by (intro exI [of _ "c # p"]) simp
  qed
qed

lemma split_unique:
  assumes "p @ x # ds = p' @ x' # ds'"
      and "list_all isDigit ds" and "list_all isDigit ds'"
      and "\<not> isDigit x" and "\<not> isDigit x'"
  shows "p = p' \<and> x = x' \<and> ds = ds'"
proof -
  have "takeWhile isDigit (rev (p @ x # ds)) = rev ds"
    using assms(2,4) by (simp add: takeWhile_tail list_all_iff)
  moreover have "takeWhile isDigit (rev (p' @ x' # ds')) = rev ds'"
    using assms(3,5) by (simp add: takeWhile_tail list_all_iff)
  ultimately have "ds = ds'" using assms(1) by simp
  with assms(1) show ?thesis by simp
qed

lemma digitValue_nonneg_aux: "0 \<le> acc \<Longrightarrow> 0 \<le> foldl (\<lambda>acc d. 10 * acc + uint (d - (0x30 :: code_unit))) acc ds"
  by (induction ds arbitrary: acc) simp_all

lemma digitValue_nonneg: "0 \<le> digitValue ds"
  by (simp add: digitValue_def digitValue_nonneg_aux)

lemma parseInt10_digits:
  assumes "ds \<noteq> []" and "list_all isDigit ds"
  shows "parseInt10 ds = Some (toDouble (digitValue ds))"
proof -
  have "takeWhile isDigit ds = ds"
    using assms(2) by (simp add: list_all_iff)
  with assms(1) show ?thesis
    by (cases ds) (simp_all add: parseInt10_def)
qed

lemma parseOperation_iff:
  "parseOperation lc cfg text = Some r \<longleftrightarrow>
     (\<exists>alias ds. trim (replaceNoRank False text) = alias @ operatorChar (operation r) # ds \<and>
        alias \<noteq> [] \<and> \<not> list_ex isLineTerminator alias \<and> ds \<noteq> [] \<and> list_all isDigit ds \<and>
        getItemName lc cfg (trim alias) = Some (itemName r) \<and> opValue r = toDouble (digitValue ds) \<and>
        noRank r = testNoRank False text)"
  (is "?L \<longleftrightarrow> ?R")
proof
  assume l: ?L
  then obtain a o' vs where m: "matchOperation [] (trim (replaceNoRank False text)) = Some (a, o', vs)"
    by (auto simp: parseOperation_def Let_def split: option.splits)
  from matchOperation_sound [OF m] have dec:
    "trim (replaceNoRank False text) = a @ operatorChar o' # vs" "a \<noteq> []" "vs \<noteq> []"
    "list_all isDigit vs" "\<not> list_ex isLineTerminator a"
    by auto
  from l m dec(3,4) have "getItemName lc cfg (trim a) = Some (itemName r)" "operation r = o'"
    "opValue r = toDouble (digitValue vs)" "noRank r = testNoRank False text"
    by (auto simp: parseOperation_def Let_def parseInt10_digits split: option.splits)
  with dec show ?R by blast
next
  assume ?R
  then obtain al ds where d:
    "trim (replaceNoRank False text) = al @ operatorChar (operation r) # ds"
    "al \<noteq> []" "\<not> list_ex isLineTerminator al" "ds \<noteq> []" "list_all isDigit ds"
    "getItemName lc cfg (trim al) = Some (itemName r)" "opValue r = toDouble (digitValue ds)"
    "noRank r = testNoRank False text"
    by blast
  have "matchOperation [] (al @ operatorChar (operation r) # ds) = Some ([] @ al, operation r, ds)"
    using d(2-5) by (intro matchOperation_complete) simp_all
  with d show ?L
    by (simp add: parseOperation_def Let_def parseInt10_digits)
qed

lemma aliasMap_inner_sound:
  "foldl (\<lambda>m al. m(lc al \<mapsto> nm)) m als k = Some n \<Longrightarrow>
     m k = Some n \<or> (n = nm \<and> (\<exists>al\<in>set als. lc al = k))"
proof (induction als arbitrary: m)
  case Nil
  then show ?case by simp
next
  case (Cons a als)
  from Cons.prems have "foldl (\<lambda>m al. m(lc al \<mapsto> nm)) (m(lc a \<mapsto> nm)) als k = Some n"
    by (simp only: foldl_Cons)
  from Cons.IH [OF this] show ?case
    by (cases "lc a = k") auto
qed

lemma addAliases_sound:
  "addAliases lc m it k = Some n \<Longrightarrow>
     m k = Some n \<or> (n = name it \<and> (\<exists>al\<in>set (aliases it). lc al = k))"
  unfolding addAliases_def by (rule aliasMap_inner_sound)

lemma aliasMap_outer_sound:
  "foldl (addAliases lc) m its k = Some n \<Longrightarrow>
     m k = Some n \<or> (\<exists>it\<in>set its. name it = n \<and> (\<exists>al\<in>set (aliases it). lc al = k))"
proof (induction its arbitrary: m)
  case Nil
  then show ?case by simp
next
  case (Cons it its)
  from Cons.prems have "foldl (addAliases lc) (addAliases lc m it) its k = Some n"
    by simp
  from Cons.IH [OF this] show ?case
    using addAliases_sound [of lc m it k n] by auto
qed

lemma aliasMap_inner_dom:
  "m k \<noteq> None \<or> (\<exists>al\<in>set als. lc al = k) \<Longrightarrow> foldl (\<lambda>m al. m(lc al \<mapsto> nm)) m als k \<noteq> None"
  by (induction als arbitrary: m) auto

lemma addAliases_dom:
  "m k \<noteq> None \<or> (\<exists>al\<in>set (aliases it). lc al = k) \<Longrightarrow> addAliases lc m it k \<noteq> None"
  unfolding addAliases_def by (rule aliasMap_inner_dom)

lemma aliasMap_outer_dom:
  "m k \<noteq> None \<or> (\<exists>it\<in>set its. \<exists>al\<in>set (aliases it). lc al = k) \<Longrightarrow>
     foldl (addAliases lc) m its k \<noteq> None"
proof (induction its arbitrary: m)
  case Nil
  then show ?case by simp
next
  case (Cons it its)
  have "addAliases lc m it k \<noteq> None \<or> (\<exists>it\<in>set its. \<exists>al\<in>set (aliases it). lc al = k)"
    using Cons.prems addAliases_dom [of m k it lc] by auto
  then have "foldl (addAliases lc) (addAliases lc m it) its k \<noteq> None"
    by (rule Cons.IH)
  then show ?case by simp
qed

lemma getItemName_sound:
  assumes "getItemName lc cfg a = Some n"
  shows "n \<noteq> [] \<and> (\<exists>it\<in>set (items cfg). name it = n \<and> (\<exists>al\<in>set (aliases it). lc al = lc a))"
proof -
  from assms have "aliasMap lc cfg (lc a) = Some n" and "n \<noteq> []"
    by (auto simp: getItemName_def split: option.splits if_splits)
  then show ?thesis
    using aliasMap_outer_sound [of lc Map.empty "items cfg" "lc a" n]
    by (simp add: aliasMap_def)
qed

lemma getItemName_complete:
  assumes "\<forall>it\<in>set (items cfg). name it \<noteq> []"
      and "it \<in> set (items cfg)" and "al \<in> set (aliases it)" and "lc a = lc al"
  shows "\<exists>n. getItemName lc cfg a = Some n"
proof -
  have "\<exists>it\<in>set (items cfg). \<exists>al\<in>set (aliases it). lc al = lc a"
    using assms(2,3,4) by auto
  then have "aliasMap lc cfg (lc a) \<noteq> None"
    unfolding aliasMap_def by (intro aliasMap_outer_dom) simp
  then obtain n where n: "aliasMap lc cfg (lc a) = Some n" by auto
  then have "\<exists>it\<in>set (items cfg). name it = n"
    using aliasMap_outer_sound [of lc Map.empty "items cfg" "lc a" n]
    by (auto simp: aliasMap_def)
  with assms(1) have "n \<noteq> []" by auto
  with n show ?thesis by (simp add: getItemName_def)
qed

lemma toDouble_nonneg: "0 \<le> n \<Longrightarrow> \<not> jsLt (toDouble n) (Fin 0)"
  by (simp add: toDouble_sign)

text \<open>
  C2, with the magnitude as \<^verbatim>\<open>parseInt\<close> returns it. Let \<open>clean\<close> be the input after the
  \<^verbatim>\<open>-r\<close> markers are taken out and it is trimmed.
  \<^item> A result of \<open>parseOperation\<close> comes from a split of \<open>clean\<close> into an alias that is not
    empty and holds no line terminator, one of the operators \<^verbatim>\<open>+\<close>, \<^verbatim>\<open>-\<close>, \<^verbatim>\<open>=\<close>, and
    digits up to the end; its item is what the alias index gives for the trimmed alias; its
    magnitude is the double nearest to the value of the digits, which is not below 0, is
    that value itself up to \<open>2^53\<close>, and is \<^verbatim>\<open>Infinity\<close> from \<open>2^1024\<close> on; and no split
    of \<open>clean\<close> into an alias, an operator and digits has a shorter alias.
  \<^item> Every such split whose alias holds no line terminator and resolves gives that result.
  \<^item> When the alias of such a split does not resolve, or holds a line terminator, the result
    is \<open>None\<close>; so it is when \<open>clean\<close> does not end in a digit, and when the code unit
    before the final digits is not an operator: content after the digits makes the parse
    fail.
  \<^item> The index is read through the lowering function only, so aliases that lower to the same
    string resolve alike; a name that comes back is the name of a configured item that has an
    alias lowering to the same string; and when no configured name is empty, every alias that
    lowers to the same string as a configured one resolves.
  The result is an option, the function is total: nothing is thrown.
\<close>

theorem parse_alias_operator_digits:
  fixes lc :: "jsstring \<Rightarrow> jsstring" and cfg :: config and input :: jsstring
  defines "clean \<equiv> trim (replaceNoRank False input)"
  shows
    "(\<forall>r. parseOperation lc cfg input = Some r \<longrightarrow>
        (\<exists>alias ds.
           clean = alias @ operatorChar (operation r) # ds \<and> alias \<noteq> [] \<and>
           \<not> list_ex isLineTerminator alias \<and> ds \<noteq> [] \<and> list_all isDigit ds \<and>
           getItemName lc cfg (trim alias) = Some (itemName r) \<and>
           opValue r = toDouble (digitValue ds) \<and> 0 \<le> digitValue ds \<and>
           \<not> jsLt (opValue r) (Fin 0) \<and>
           (digitValue ds \<le> 2 ^ 53 \<longrightarrow> opValue r = Fin (digitValue ds)) \<and>
           (2 ^ 1024 \<le> digitValue ds \<longrightarrow> opValue r = PosInf) \<and>
           (\<forall>alias' o' ds'. clean = alias' @ operatorChar o' # ds' \<and> list_all isDigit ds' \<longrightarrow>
              length alias \<le> length alias'))) \<and>
     (\<forall>alias o' ds n.
        clean = alias @ operatorChar o' # ds \<and> alias \<noteq> [] \<and> \<not> list_ex isLineTerminator alias \<and>
        ds \<noteq> [] \<and> list_all isDigit ds \<and> getItemName lc cfg (trim alias) = Some n \<longrightarrow>
        parseOperation lc cfg input =
          Some \<lparr>itemName = n, operation = o', opValue = toDouble (digitValue ds),
                noRank = testNoRank False input\<rparr>) \<and>
     (\<forall>alias o' ds.
        clean = alias @ operatorChar o' # ds \<and> list_all isDigit ds \<and>
        (getItemName lc cfg (trim alias) = None \<or> list_ex isLineTerminator alias) \<longrightarrow>
        parseOperation lc cfg input = None) \<and>
     (clean = [] \<or> \<not> isDigit (last clean) \<longrightarrow> parseOperation lc cfg input = None) \<and>
     (\<forall>pre c ds.
        clean = pre @ c # ds \<and> list_all isDigit ds \<and> \<not> isDigit c \<and> operatorOf c = None \<longrightarrow>
        parseOperation lc cfg input = None) \<and>
     (\<forall>a b. lc a = lc b \<longrightarrow> getItemName lc cfg a = getItemName lc cfg b) \<and>
     (\<forall>a n. getItemName lc cfg a = Some n \<longrightarrow>
        (\<exists>it\<in>set (items cfg). name it = n \<and> (\<exists>al\<in>set (aliases it). lc al = lc a))) \<and>
     (\<forall>a it al. (\<forall>it\<in>set (items cfg). name it \<noteq> []) \<and> it \<in> set (items cfg) \<and>
        al \<in> set (aliases it) \<and> lc a = lc al \<longrightarrow> (\<exists>n. getItemName lc cfg a = Some n))"
proof -
  have shape: "\<exists>al ds.
           clean = al @ operatorChar (operation r) # ds \<and> al \<noteq> [] \<and>
           \<not> list_ex isLineTerminator al \<and> ds \<noteq> [] \<and> list_all isDigit ds \<and>
           getItemName lc cfg (trim al) = Some (itemName r) \<and>
           opValue r = toDouble (digitValue ds) \<and> 0 \<le> digitValue ds \<and>
           \<not> jsLt (opValue r) (Fin 0) \<and>
           (digitValue ds \<le> 2 ^ 53 \<longrightarrow> opValue r = Fin (digitValue ds)) \<and>
           (2 ^ 1024 \<le> digitValue ds \<longrightarrow> opValue r = PosInf) \<and>
           (\<forall>al' o' ds'. clean = al' @ operatorChar o' # ds' \<and> list_all isDigit ds' \<longrightarrow>
              length al \<le> length al')"
    if p: "parseOperation lc cfg input = Some r" for r
  proof -
    from p obtain al ds where d:
      "clean = al @ operatorChar (operation r) # ds" "al \<noteq> []"
      "\<not> list_ex isLineTerminator al" "ds \<noteq> []" "list_all isDigit ds"
      "getItemName lc cfg (trim al) = Some (itemName r)" "opValue r = toDouble (digitValue ds)"
      unfolding parseOperation_iff clean_def by blast
    have "length al \<le> length al'"
      if "clean = al' @ operatorChar o' # ds'" "list_all isDigit ds'" for al' o' ds'
      using split_unique [of al "operatorChar (operation r)" ds al' "operatorChar o'" ds']
        d(1,5) that by (simp add: operatorChar_not_digit)
    moreover have nn: "0 \<le> digitValue ds" by (rule digitValue_nonneg)
    moreover have "\<not> jsLt (opValue r) (Fin 0)"
      unfolding d(7) using nn by (rule toDouble_nonneg)
    moreover have "opValue r = Fin (digitValue ds)" if "digitValue ds \<le> 2 ^ 53"
      unfolding d(7) using that nn by (intro toDouble_exact) simp
    moreover have "opValue r = PosInf" if "2 ^ 1024 \<le> digitValue ds"
      unfolding d(7) using that by (rule toDouble_overflow)
    ultimately show ?thesis
      using d by (intro exI [of _ al] exI [of _ ds]) simp
  qed
  have match: "parseOperation lc cfg input =
          Some \<lparr>itemName = n, operation = o', opValue = toDouble (digitValue ds),
                noRank = testNoRank False input\<rparr>"
    if "clean = al @ operatorChar o' # ds" "al \<noteq> []" "\<not> list_ex isLineTerminator al"
       "ds \<noteq> []" "list_all isDigit ds" "getItemName lc cfg (trim al) = Some n" for al o' ds n
    unfolding parseOperation_iff using that unfolding clean_def by auto
  have unresolved: "parseOperation lc cfg input = None"
    if h: "clean = al @ operatorChar o' # ds" "list_all isDigit ds"
       "getItemName lc cfg (trim al) = None \<or> list_ex isLineTerminator al" for al o' ds
  proof (rule ccontr)
    assume "parseOperation lc cfg input \<noteq> None"
    then obtain r where r: "parseOperation lc cfg input = Some r" by auto
    then obtain al2 ds2 where d:
      "clean = al2 @ operatorChar (operation r) # ds2" "list_all isDigit ds2"
      "getItemName lc cfg (trim al2) = Some (itemName r)" "\<not> list_ex isLineTerminator al2"
      unfolding parseOperation_iff clean_def by blast
    have "al2 = al"
      using split_unique [of al2 "operatorChar (operation r)" ds2 al "operatorChar o'" ds]
        d(1,2) h(1,2) by (simp add: operatorChar_not_digit)
    with d(3,4) h(3) show False by simp
  qed
  have nodigit: "parseOperation lc cfg input = None" if h: "clean = [] \<or> \<not> isDigit (last clean)"
  proof (rule ccontr)
    assume "parseOperation lc cfg input \<noteq> None"
    then obtain r where r: "parseOperation lc cfg input = Some r" by auto
    then obtain al2 ds2 where d:
      "clean = al2 @ operatorChar (operation r) # ds2" "ds2 \<noteq> []" "list_all isDigit ds2"
      unfolding parseOperation_iff clean_def by blast
    then have "clean \<noteq> []" "last clean = last ds2" by simp_all
    moreover have "isDigit (last ds2)"
      using d(2,3) by (simp add: list_all_iff)
    ultimately show False using h by simp
  qed
  have trailing: "parseOperation lc cfg input = None"
    if h: "clean = pre @ c # ds" "list_all isDigit ds" "\<not> isDigit c" "operatorOf c = None" for pre c ds
  proof (rule ccontr)
    assume "parseOperation lc cfg input \<noteq> None"
    then obtain r where r: "parseOperation lc cfg input = Some r" by auto
    then obtain al2 ds2 where d:
      "clean = al2 @ operatorChar (operation r) # ds2" "list_all isDigit ds2"
      unfolding parseOperation_iff clean_def by blast
    have "operatorChar (operation r) = c"
      using split_unique [of al2 "operatorChar (operation r)" ds2 pre c ds]
        d(1,2) h(1,2,3) by (simp add: operatorChar_not_digit)
    with h(4) show False using operatorOf_operatorChar [of "operation r"] by simp
  qed
  have ci: "getItemName lc cfg a = getItemName lc cfg b" if "lc a = lc b" for a b
    using that by (simp add: getItemName_def)
  show ?thesis
    apply (intro conjI allI impI)
    subgoal by (erule shape)
    subgoal by (elim conjE) (rule match; assumption)
    subgoal by (elim conjE) (rule unresolved; assumption)
    subgoal by (erule nodigit)
    subgoal by (elim conjE) (rule trailing; assumption)
    subgoal by (erule ci)
    subgoal using getItemName_sound by blast
    subgoal by (elim conjE) (rule getItemName_complete; assumption)
    done
qed

text \<open>
  \<^verbatim>\<open>WATER+5\<close> resolves through the alias \<^verbatim>\<open>water\<close>; \<^verbatim>\<open>water+5x\<close> does not parse.
\<close>

theorem parse_alias_operator_digits_witness:
  "parseOperation asciiLower defaultConfig (js ''WATER+5'') = Some (waterOp OpPlus 5) \<and>
   parseOperation asciiLower defaultConfig (js ''water+5x'') = None"
proof -
  have c: "trim (replaceNoRank False (js ''WATER+5'')) = js ''WATER'' @ operatorChar OpPlus # js ''5''"
    by code_simp
  have h: "js ''WATER'' \<noteq> []" "\<not> list_ex isLineTerminator (js ''WATER'')" "js ''5'' \<noteq> []"
    "list_all isDigit (js ''5'')"
    "getItemName asciiLower defaultConfig (trim (js ''WATER'')) = Some pureWater"
    by code_simp+
  have v: "toDouble (digitValue (js ''5'')) = Fin 5" "testNoRank False (js ''WATER+5'') = False"
    by code_simp+
  have "parseOperation asciiLower defaultConfig (js ''WATER+5'') =
          Some \<lparr>itemName = pureWater, operation = OpPlus, opValue = toDouble (digitValue (js ''5'')),
                noRank = testNoRank False (js ''WATER+5'')\<rparr>"
    using parse_alias_operator_digits [of asciiLower defaultConfig "js ''WATER+5''"] c h
    by blast
  moreover have "\<not> isDigit (last (trim (replaceNoRank False (js ''water+5x''))))"
    by code_simp
  then have "parseOperation asciiLower defaultConfig (js ''water+5x'') = None"
    using parse_alias_operator_digits [of asciiLower defaultConfig "js ''water+5x''"]
    by blast
  ultimately show ?thesis using v by (simp add: waterOp_def)
qed

text \<open>
  C2, as stated, fails in two ways. The magnitude is a double, not the integer the digits
  spell: \<^verbatim>\<open>water+9007199254740993\<close> gives \<open>2^53\<close>, and \<^verbatim>\<open>water+\<close> followed by 310 nines
  gives \<^verbatim>\<open>Infinity\<close>, which \<^verbatim>\<open>isNaN\<close> lets through. And an input that is an alias, an
  operator and digits is refused when the alias holds a line feed, which \<^verbatim>\<open>.\<close> does not
  match, although the trimmed alias resolves.
\<close>

theorem parse_rounds_magnitude_refuses_line_break:
  "parseOperation asciiLower defaultConfig (js ''water+9007199254740993'') =
     Some (waterOp OpPlus 9007199254740992) \<and>
   digitValue (js ''9007199254740993'') = 9007199254740993 \<and>
   parseOperation asciiLower defaultConfig (js ''water+'' @ replicate 310 0x39) =
     Some \<lparr>itemName = pureWater, operation = OpPlus, opValue = PosInf, noRank = False\<rparr> \<and>
   parseOperation asciiLower defaultConfig (js ''water'' @ [0x0A] @ js ''+5'') = None \<and>
   trim (replaceNoRank False (js ''water'' @ [0x0A] @ js ''+5'')) =
     (js ''water'' @ [0x0A]) @ operatorChar OpPlus # js ''5'' \<and>
   getItemName asciiLower defaultConfig (trim (js ''water'' @ [0x0A])) = Some pureWater"
proof -
  have 1: "parseOperation asciiLower defaultConfig (js ''water+9007199254740993'') =
             Some (waterOp OpPlus 9007199254740992)"
    "digitValue (js ''9007199254740993'') = 9007199254740993"
    "parseOperation asciiLower defaultConfig (js ''water'' @ [0x0A] @ js ''+5'') = None"
    "trim (replaceNoRank False (js ''water'' @ [0x0A] @ js ''+5'')) =
       (js ''water'' @ [0x0A]) @ operatorChar OpPlus # js ''5''"
    "getItemName asciiLower defaultConfig (trim (js ''water'' @ [0x0A])) = Some pureWater"
    by code_simp+
  have c: "trim (replaceNoRank False (js ''water+'' @ replicate 310 0x39)) =
             js ''water'' @ operatorChar OpPlus # replicate 310 0x39"
    by code_simp
  have n: "testNoRank False (js ''water+'' @ replicate 310 0x39) = False"
    by code_simp
  have g: "getItemName asciiLower defaultConfig (trim (js ''water'')) = Some pureWater"
    "js ''water'' \<noteq> []" "\<not> list_ex isLineTerminator (js ''water'')"
    by code_simp+
  have d: "replicate 310 (0x39 :: code_unit) \<noteq> []" "list_all isDigit (replicate 310 0x39)"
    by (simp_all add: list_all_iff isDigit_def)
  have "parseOperation asciiLower defaultConfig (js ''water+'' @ replicate 310 0x39) =
          Some \<lparr>itemName = pureWater, operation = OpPlus, opValue = PosInf, noRank = False\<rparr>"
    unfolding parseOperation_iff
    by (intro exI [of _ "js ''water''"] exI [of _ "replicate 310 0x39"])
       (simp add: c n g d nines_overflow)
  with 1 show ?thesis by blast
qed

section \<open>The history log: in memory and in the file\<close>










lemma history_getRecords: "fst (getRecords (snd (getRecords st))) = fst (getRecords st)"
  by (simp add: getRecords_def loadRecords_def split: option.splits)







section \<open>The ranking\<close>





































section \<open>Where the code leaves the spec\<close>

text \<open>
  The counters stay doubles under every operation whose magnitude is one, and the parser
  yields no other magnitudes.
\<close>

lemma applyOperation_isDouble:
  assumes "applyOperation op item = Some (ch, aop, item')"
      and "isDouble (opValue op)" and "isDouble (count item)"
      and "isDouble (totalAdded item)" and "isDouble (totalConsumed item)"
  shows "isDouble ch \<and> isDouble (count item') \<and> isDouble (totalAdded item') \<and>
         isDouble (totalConsumed item')"
proof -
  have z: "isDouble (Fin 0)" by (simp add: isDouble_def)
  from assms z show ?thesis
    by (cases "operation op")
       (auto simp: applyOperation_def Let_def isDouble_jsAdd isDouble_jsSub isDouble_jsNeg
             split: if_splits)
qed

lemma parseOperation_isDouble:
  assumes "parseOperation lc cfg input = Some r"
  shows "isDouble (opValue r) \<and> \<not> jsLt (opValue r) (Fin 0)"
proof -
  from assms obtain ds where "opValue r = toDouble (digitValue ds)"
    unfolding parseOperation_iff by blast
  then show ?thesis
    by (simp add: isDouble_toDouble toDouble_nonneg digitValue_nonneg)
qed

text \<open>
  The operations parsed from messages keep every count that is not below 0 that way: the
  magnitude comes from a digit string, and the decrease clamps.
\<close>

lemma handleOperation_stockData:
  assumes "stockData st (itemName op) = Some item"
      and "applyOperation op item = Some (ch, aop, item')"
  shows "stockData (snd (handleOperation cfg e s op st)) =
           (stockData st)(itemName op \<mapsto> item', name item' \<mapsto> item')"
  using assms
  by (auto simp: handleOperation_def saveStockItem_def addRecord_def getRanking_def
        getRecords_def loadRecords_def Let_def split: option.splits prod.splits)

lemma jsAdd_nonnegative:
  "\<not> jsLt x (Fin 0) \<Longrightarrow> \<not> jsLt y (Fin 0) \<Longrightarrow> \<not> jsLt (jsAdd x y) (Fin 0)"
  by (cases x; cases y) (simp_all add: toDouble_sign)

lemma applyOperation_count_nonnegative:
  assumes "applyOperation op item = Some (ch, aop, item')" and "\<not> jsLt (count item) (Fin 0)"
      and "\<not> jsLt (opValue op) (Fin 0)"
  shows "\<not> jsLt (count item') (Fin 0)"
  using assms
  by (cases "operation op")
     (auto simp: applyOperation_def Let_def jsAdd_nonnegative split: if_splits)

lemma handleOperation_keeps_counts_nonnegative:
  assumes inv: "\<forall>n it. stockData st n = Some it \<longrightarrow> \<not> jsLt (count it) (Fin 0)"
      and val: "\<not> jsLt (opValue op) (Fin 0)"
  shows "\<forall>n it. stockData (snd (handleOperation cfg e s op st)) n = Some it \<longrightarrow>
                  \<not> jsLt (count it) (Fin 0)"
proof (cases "stockData st (itemName op)")
  case None
  with inv show ?thesis by (simp add: handleOperation_def)
next
  case (Some item)
  show ?thesis
  proof (cases "applyOperation op item")
    case None
    with Some inv show ?thesis by (simp add: handleOperation_def)
  next
    case ap: (Some res)
    then obtain ch aop item' where a: "applyOperation op item = Some (ch, aop, item')"
      by (cases res) auto
    from inv Some have "\<not> jsLt (count item) (Fin 0)" by blast
    with a val have "\<not> jsLt (count item') (Fin 0)"
      using applyOperation_count_nonnegative by blast
    with inv show ?thesis
      unfolding handleOperation_stockData [OF Some a] by auto
  qed
qed

text \<open>
  C5. The marker is found by \<^verbatim>\<open>/\b-r\b/\<close>, and \<^verbatim>\<open>-\<close> is not a word character: the first
  \<^verbatim>\<open>\b\<close> holds only when the code unit before the marker is one of \<^verbatim>\<open>[A-Za-z0-9_]\<close>. After
  the digits that is always so. Between the alias and the operator it depends on the alias:
  with the configured alias U+6C34 the marker after the digits is taken out and sets the flag,
  the marker before the operator is not taken out at all, and nothing is parsed, although
  the source's comment names both formats as supported (and both work for \<^verbatim>\<open>water\<close>). A
  marker set off by a blank is not taken out either.
\<close>

theorem no_rank_marker_position_matters:
  "parseOperation asciiLower defaultConfig ([0x6C34] @ js ''-1-r'') =
     Some \<lparr>itemName = pureWater, operation = OpMinus, opValue = Fin 1, noRank = True\<rparr> \<and>
   parseOperation asciiLower defaultConfig ([0x6C34] @ js ''-r-1'') = None \<and>
   testNoRank False ([0x6C34] @ js ''-r-1'') = False \<and>
   replaceNoRank False ([0x6C34] @ js ''-r-1'') = [0x6C34] @ js ''-r-1'' \<and>
   parseOperation asciiLower defaultConfig (js ''water-r-1'') =
     Some \<lparr>itemName = pureWater, operation = OpMinus, opValue = Fin 1, noRank = True\<rparr> \<and>
   parseOperation asciiLower defaultConfig (js ''water-1 -r'') = None"
  by code_simp

text \<open>
  C8. \<^verbatim>\<open>stock.set\<close> stores the count it is given, whatever its sign: \<^verbatim>\<open>stock.set water -5\<close>
  on the initial state answers with the success message and leaves the count at \<open>- 5\<close>.
\<close>

theorem stock_set_accepts_negative_count:
  "fst (stockSet asciiLower defaultConfig exampleEnv exampleSession (js ''water'') (Some (Fin (- 5)))
          (initialState defaultConfig)) =
     Some (CountSet pureWater (Fin (- 5))
             (GetCode (js ''wmc_ref'') 1700000000000 (js ''10001'') pureWater (js ''a1b2c3''))) \<and>
   map_option count
     (stockData (snd (stockSet asciiLower defaultConfig exampleEnv exampleSession (js ''water'')
                        (Some (Fin (- 5))) (initialState defaultConfig))) pureWater) = Some (Fin (- 5))"
  by code_simp

text \<open>
  A write that fails in the timeout's callback changes nothing but the timer variable. The
  message that the data could not be saved belongs to the \<^verbatim>\<open>catch\<close> block of
  \<^verbatim>\<open>handleOperation\<close>, which no failed write can reach; with a records file that the plugin
  wrote itself the block is entered only when \<^verbatim>\<open>session.send\<close> throws.
\<close>

lemma saveTimerCallback_failure:
  "io \<noteq> IoOk \<Longrightarrow> saveTimer st = Pending \<Longrightarrow>
     saveTimerCallback io st = (Some IoError, st\<lparr>saveTimer := Expired\<rparr>)"
  by (simp add: saveTimerCallback_def saveStockData_def)

lemma handleOperation_SaveFailed:
  "fst (handleOperation cfg e s op st) = SaveFailed n \<Longrightarrow> sendThrows e"
  by (auto simp: handleOperation_def Let_def split: option.splits prod.splits if_splits)

text \<open>
  C9. \<^verbatim>\<open>water+5\<close> on the initial state is answered with the success message; the write
  happens later, in the timeout's callback. When it fails there, the callback ends with the
  error and no message is sent to anyone; the count stays 5 in memory and the file keeps
  the count 0.
\<close>

theorem failed_write_is_not_reported:
  "fst (handleOperation defaultConfig exampleEnv exampleSession (waterOp OpPlus 5)
          (initialState defaultConfig)) =
     StockChanged pureWater OpPlus (Fin 5) (Fin 5)
       (Some (RankingLines [\<lparr>statName = js ''alice'', statCount = Fin 5\<rparr>]))
       (GetCode (js ''wmc_ref'') 1700000000000 (js ''10001'') pureWater (js ''a1b2c3'')) \<and>
   fst (saveTimerCallback WriteFails
          (snd (handleOperation defaultConfig exampleEnv exampleSession (waterOp OpPlus 5)
                  (initialState defaultConfig)))) = Some IoError \<and>
   map_option count
     (stockData (snd (saveTimerCallback WriteFails
          (snd (handleOperation defaultConfig exampleEnv exampleSession (waterOp OpPlus 5)
                  (initialState defaultConfig))))) pureWater) = Some (Fin 5) \<and>
   map_option (\<lambda>file. map_option count (file pureWater))
     (itemsFile (snd (saveTimerCallback WriteFails
          (snd (handleOperation defaultConfig exampleEnv exampleSession (waterOp OpPlus 5)
                  (initialState defaultConfig)))))) = Some (Some (Fin 0))"
  by code_simp

end
